theory Spec2Isabelle
  imports Main
begin

section \<open>Data model of backend/app.py\<close>

text \<open>
  Python values of the handlers. A value that is \<open>str\<close> or \<open>None\<close> is a
  \<open>string option\<close>. An exception is an instance of \<open>Exception\<close> (the class the two
  \<open>except Exception as e\<close> clauses name); it carries \<open>str(e)\<close>.
\<close>

datatype exn = Exception string

fun str :: "exn \<Rightarrow> string" where
  "str (Exception m) = m"

record Environment =
  OPENAI_API_KEY :: string
  SERPAPI_KEY :: string

record ChatInput =
  input_message :: string

text \<open>
  \<open>class Response(BaseModel)\<close>. The field \<open>relevant_sources\<close> is declared
  \<open>list[str]\<close>, but line 115 assigns it without validation, so an entry may be \<open>None\<close>.
\<close>

record Response =
  summary :: string
  full_explanation :: string
  relevant_sources :: "string option list"
  search_keywords :: "string list"

record message =
  role :: string
  content :: string

record search_params =
  q :: string
  api_key :: string
  engine :: string

type_synonym search_results = "string \<rightharpoonup> (string \<rightharpoonup> string) list"

text \<open>What the handlers read of a \<open>requests.Response\<close>: the status and \<open>response.text\<close>.\<close>

record http_response =
  status_code :: nat
  response_text :: string

text \<open>
  What the handlers read of a parsed page: \<open>soup.title\<close> (absent, or a tag whose
  \<open>.string\<close> is a string or \<open>None\<close>) and the \<open>get_text()\<close> of every element of
  \<open>soup.find_all('p')\<close>, in document order.
\<close>

record soup =
  soup_title :: "string option option"
  p_texts :: "string list"

section \<open>The outside world\<close>

text \<open>
  The libraries the handlers call are parameters. Each network call takes the state of
  the outside world and returns the new one, so two calls with the same argument may
  answer differently. \<open>completions_parse\<close> gives \<open>response.choices[0].message.parsed\<close>,
  which is \<open>None\<close> when the model's answer was not parsed.
\<close>

record 'w services =
  completions_parse :: "'w \<Rightarrow> string \<Rightarrow> message list \<Rightarrow> (exn + Response option) \<times> 'w"
  get_dict :: "'w \<Rightarrow> search_params \<Rightarrow> (exn + search_results) \<times> 'w"
  requests_get :: "'w \<Rightarrow> string option \<Rightarrow> (exn + http_response) \<times> 'w"
  HTTPError_message :: "http_response \<Rightarrow> string"
  BeautifulSoup :: "string \<Rightarrow> exn + soup"
  urlparse_netloc :: "string \<Rightarrow> exn + string"

text \<open>The calls a handler has made so far, in order.\<close>

datatype event =
  ParseCall "message list"
| SearchCall search_params
| GetCall "string option"

type_synonym 'w state = "'w \<times> event list"

definition call_parse ::
  "'w services \<Rightarrow> 'w state \<Rightarrow> string \<Rightarrow> message list \<Rightarrow> (exn + Response option) \<times> 'w state" where
  "call_parse sv s model messages =
     (case completions_parse sv (fst s) model messages of
        (r, w') \<Rightarrow> (r, (w', snd s @ [ParseCall messages])))"

definition call_search ::
  "'w services \<Rightarrow> 'w state \<Rightarrow> search_params \<Rightarrow> (exn + search_results) \<times> 'w state" where
  "call_search sv s params =
     (case get_dict sv (fst s) params of
        (r, w') \<Rightarrow> (r, (w', snd s @ [SearchCall params])))"

definition call_get ::
  "'w services \<Rightarrow> 'w state \<Rightarrow> string option \<Rightarrow> (exn + http_response) \<times> 'w state" where
  "call_get sv s url =
     (case requests_get sv (fst s) url of
        (r, w') \<Rightarrow> (r, (w', snd s @ [GetCall url])))"

text \<open>\<open>response.raise_for_status()\<close>: an \<open>HTTPError\<close> for a 4xx or 5xx status.\<close>

definition raise_for_status :: "'w services \<Rightarrow> http_response \<Rightarrow> exn + unit" where
  "raise_for_status sv response =
     (if 400 \<le> status_code response \<and> status_code response < 600
      then Inl (Exception (HTTPError_message sv response))
      else Inr ())"

section \<open>Strings\<close>

text \<open>\<open>sep.join(xs)\<close>.\<close>

fun join :: "string \<Rightarrow> string list \<Rightarrow> string" where
  "join sep [] = []"
| "join sep [x] = x"
| "join sep (x # y # ys) = x @ sep @ join sep (y # ys)"

text \<open>How an f-string renders \<open>{url}\<close>: \<open>None\<close> is printed as the word None.\<close>

definition format_url :: "string option \<Rightarrow> string" where
  "format_url url = (case url of None \<Rightarrow> ''None'' | Some u \<Rightarrow> u)"

text \<open>A word between apostrophes.\<close>

definition quoted :: "string \<Rightarrow> string" where
  "quoted s = [CHR 0x27] @ s @ [CHR 0x27]"

text \<open>\<open>result.field\<close> on \<open>parsed\<close>: an \<open>AttributeError\<close> when \<open>parsed\<close> is \<open>None\<close>.\<close>

definition AttributeError :: "string \<Rightarrow> exn" where
  "AttributeError field =
     Exception (quoted ''NoneType'' @ '' object has no attribute '' @ quoted field)"

section \<open>POST /chat\<close>

definition preamble :: string where
  "preamble = ''you'' @ [CHR 0x27] @ ''re a helpful assistant that responds to the user'' @ [CHR 0x27] @ ''s message in a friendly way. you are also a great tutor and explain concepts in a way that is easy to understand. you answer all queries using knowledge from the internet.''"

definition model_name :: string where
  "model_name = ''gpt-4o-mini''"

text \<open>Lines 69-71: the conversation of the first completion call.\<close>

definition initial_messages :: "ChatInput \<Rightarrow> message list" where
  "initial_messages input =
     [\<lparr>role = ''system'', content = preamble\<rparr>,
      \<lparr>role = ''user'', content = input_message input\<rparr>]"

text \<open>Lines 78-82.\<close>

definition make_search_params :: "Environment \<Rightarrow> string list \<Rightarrow> search_params" where
  "make_search_params environment keywords =
     \<lparr>q = join '' '' keywords, api_key = SERPAPI_KEY environment, engine = ''google''\<rparr>"

text \<open>Line 87: \<open>search_results.get("organic_results", [])\<close>.\<close>

definition get_organic_results :: "search_results \<Rightarrow> (string \<rightharpoonup> string) list" where
  "get_organic_results search_results =
     (case search_results ''organic_results'' of None \<Rightarrow> [] | Some rs \<Rightarrow> rs)"

text \<open>Line 88: \<open>[result.get("link") for result in organic_results[:5]]\<close>.\<close>

definition first_links :: "(string \<rightharpoonup> string) list \<Rightarrow> string option list" where
  "first_links organic_results = map (\<lambda>result. result ''link'') (take 5 organic_results)"

text \<open>Lines 94-98, the body of the \<open>try\<close>.\<close>

definition fetch_text :: "'w services \<Rightarrow> 'w state \<Rightarrow> string option \<Rightarrow> (exn + string) \<times> 'w state" where
  "fetch_text sv s url =
     (case call_get sv s url of
        (Inl e, s') \<Rightarrow> (Inl e, s')
      | (Inr response, s') \<Rightarrow>
          (case raise_for_status sv response of
             Inl e \<Rightarrow> (Inl e, s')
           | Inr _ \<Rightarrow>
               (case BeautifulSoup sv (response_text response) of
                  Inl e \<Rightarrow> (Inl e, s')
                | Inr page \<Rightarrow> (Inr (join '' '' (p_texts page)), s'))))"

text \<open>Line 101, the text appended by the \<open>except\<close> clause.\<close>

definition fetch_error_text :: "string option \<Rightarrow> exn \<Rightarrow> string" where
  "fetch_error_text url e = ''Error fetching content from '' @ format_url url @ '': '' @ str e"

text \<open>Lines 93-101: one iteration, the value appended to \<open>relevant_information\<close>.\<close>

definition fetch_entry :: "'w services \<Rightarrow> 'w state \<Rightarrow> string option \<Rightarrow> string \<times> 'w state" where
  "fetch_entry sv s url =
     (case fetch_text sv s url of
        (Inr text_content, s') \<Rightarrow> (text_content, s')
      | (Inl e, s') \<Rightarrow> (fetch_error_text url e, s'))"

text \<open>Lines 91-101: the loop over \<open>relevant_sources\<close>.\<close>

fun scrape ::
  "'w services \<Rightarrow> 'w state \<Rightarrow> string option list \<Rightarrow> string list \<Rightarrow> string list \<times> 'w state" where
  "scrape sv s [] relevant_information = (relevant_information, s)"
| "scrape sv s (url # urls) relevant_information =
     (case fetch_entry sv s url of
        (entry, s') \<Rightarrow> scrape sv s' urls (relevant_information @ [entry]))"

text \<open>Lines 105-106: the two messages appended to \<open>messages\<close>.\<close>

definition summarize_message :: "string \<Rightarrow> message" where
  "summarize_message summary_input =
     \<lparr>role = ''system'', content = ''Summarize the following information: '' @ summary_input\<rparr>"

definition explain_message :: "string \<Rightarrow> message" where
  "explain_message summary_input =
     \<lparr>role = ''system'',
      content = ''Give a detailed explanation of the following information: '' @ summary_input\<rparr>"

text \<open>
  The handler. An exception outside the loop's \<open>try\<close> leaves the handler: the result is
  \<open>Inl\<close>. The returned \<open>{"my_response": result}\<close> is given as \<open>result\<close>.
\<close>

definition chat ::
  "'w services \<Rightarrow> Environment \<Rightarrow> 'w state \<Rightarrow> ChatInput \<Rightarrow> (exn + Response) \<times> 'w state" where
  "chat sv environment s0 input =
     (let messages = initial_messages input in
      case call_parse sv s0 model_name messages of
        (Inl e, s1) \<Rightarrow> (Inl e, s1)
      | (Inr None, s1) \<Rightarrow> (Inl (AttributeError ''search_keywords''), s1)
      | (Inr (Some result), s1) \<Rightarrow>
          (case call_search sv s1 (make_search_params environment (search_keywords result)) of
             (Inl e, s2) \<Rightarrow> (Inl e, s2)
           | (Inr search_results, s2) \<Rightarrow>
               (let links = first_links (get_organic_results search_results) in
                case scrape sv s2 links [] of
                  (relevant_information, s3) \<Rightarrow>
                    (let summary_input = join '' '' relevant_information;
                         messages2 = messages @ [summarize_message summary_input,
                                                 explain_message summary_input] in
                     case call_parse sv s3 model_name messages2 of
                       (Inl e, s4) \<Rightarrow> (Inl e, s4)
                     | (Inr summary_result, s4) \<Rightarrow>
                         (case call_parse sv s4 model_name messages2 of
                            (Inl e, s5) \<Rightarrow> (Inl e, s5)
                          | (Inr full_explanation_result, s5) \<Rightarrow>
                              (case summary_result of
                                 None \<Rightarrow> (Inl (AttributeError ''summary''), s5)
                               | Some sr \<Rightarrow>
                                   (case full_explanation_result of
                                      None \<Rightarrow> (Inl (AttributeError ''full_explanation''), s5)
                                    | Some fr \<Rightarrow>
                                        (Inr (result\<lparr>summary := summary sr,
                                                     full_explanation := full_explanation fr,
                                                     relevant_sources := links\<rparr>), s5))))))))"

section \<open>GET /preview\<close>

text \<open>A returned dictionary: keys in order, each value a string or \<open>None\<close>.\<close>

type_synonym preview = "(string \<times> string option) list"

text \<open>Lines 124-139, the body of the \<open>try\<close>.\<close>

definition preview_body :: "'w services \<Rightarrow> 'w state \<Rightarrow> string \<Rightarrow> (exn + preview) \<times> 'w state" where
  "preview_body sv s url =
     (case call_get sv s (Some url) of
        (Inl e, s') \<Rightarrow> (Inl e, s')
      | (Inr response, s') \<Rightarrow>
          (case raise_for_status sv response of
             Inl e \<Rightarrow> (Inl e, s')
           | Inr _ \<Rightarrow>
               (case BeautifulSoup sv (response_text response) of
                  Inl e \<Rightarrow> (Inl e, s')
                | Inr page \<Rightarrow>
                    (let title = (case soup_title page of
                                    Some title_string \<Rightarrow> title_string
                                  | None \<Rightarrow> Some ''No title found'') in
                     case urlparse_netloc sv url of
                       Inl e \<Rightarrow> (Inl e, s')
                     | Inr url_host \<Rightarrow>
                         (Inr [(''title'', title), (''url_host'', Some url_host)], s')))))"

text \<open>Lines 140-145, the dictionary returned by the \<open>except\<close> clause.\<close>

definition preview_error :: "exn \<Rightarrow> preview" where
  "preview_error e =
     [(''title'', Some ''Error fetching preview''),
      (''url_host'', Some ''Error''),
      (''error'', Some (str e))]"

definition get_preview :: "'w services \<Rightarrow> 'w state \<Rightarrow> string \<Rightarrow> (exn + preview) \<times> 'w state" where
  "get_preview sv s url =
     (case preview_body sv s url of
        (Inr d, s') \<Rightarrow> (Inr d, s')
      | (Inl e, s') \<Rightarrow> (Inr (preview_error e), s'))"

text \<open>
  Lines 105-106: \<open>messages\<close> after the two \<open>append\<close> calls, the argument of both
  final completion calls.
\<close>

definition final_messages :: "ChatInput \<Rightarrow> string list \<Rightarrow> message list" where
  "final_messages input relevant_information =
     initial_messages input @
       [summarize_message (join '' '' relevant_information),
        explain_message (join '' '' relevant_information)]"

section \<open>Reading the log of calls\<close>

fun is_parse_call :: "event \<Rightarrow> bool" where
  "is_parse_call (ParseCall _) = True"
| "is_parse_call _ = False"

fun is_search_call :: "event \<Rightarrow> bool" where
  "is_search_call (SearchCall _) = True"
| "is_search_call _ = False"

text \<open>
  The completion service and the search provider answer every call: no exception, and a
  parsed result.
\<close>

definition upstream_answers :: "'w services \<Rightarrow> bool" where
  "upstream_answers sv \<longleftrightarrow>
     (\<forall>w model messages. \<exists>result w'.
        completions_parse sv w model messages = (Inr (Some result), w')) \<and>
     (\<forall>w params. \<exists>search_results w'. get_dict sv w params = (Inr search_results, w'))"

section \<open>A test world\<close>

text \<open>
  A world whose state is a clock. The model answers differently at each call; the search
  provider returns six entries, the second without a link; page b answers 500, page c has
  an empty title, page d has none, and any other address cannot be fetched. The host of
  an address is read after the seven characters of \<open>http://\<close>, up to the next slash.
\<close>

definition example_environment :: Environment where
  "example_environment = \<lparr>OPENAI_API_KEY = ''k1'', SERPAPI_KEY = ''k2''\<rparr>"

definition example_parsed :: "int \<Rightarrow> Response" where
  "example_parsed w =
     \<lparr>summary = (if w = 0 then ''first summary'' else if w = 7 then ''second summary''
                 else ''third summary''),
      full_explanation = (if w = 0 then ''first explanation''
                          else if w = 7 then ''second explanation'' else ''third explanation''),
      relevant_sources = [Some ''http://model.example''],
      search_keywords = (if w = 0 then [''isabelle'', ''hol''] else [''other''])\<rparr>"

definition example_organic :: "(string \<rightharpoonup> string) list" where
  "example_organic =
     [[''link'' \<mapsto> ''http://example.com''],
      [''title'' \<mapsto> ''no link here''],
      [''link'' \<mapsto> ''http://b.example''],
      [''link'' \<mapsto> ''http://c.example''],
      [''link'' \<mapsto> ''http://d.example''],
      [''link'' \<mapsto> ''http://e.example'']]"

definition example_get :: "string option \<Rightarrow> exn + http_response" where
  "example_get url =
     (if url = Some ''http://example.com'' then Inr \<lparr>status_code = 200, response_text = ''A''\<rparr>
      else if url = Some ''http://b.example'' then Inr \<lparr>status_code = 500, response_text = ''B''\<rparr>
      else if url = Some ''http://c.example'' then Inr \<lparr>status_code = 200, response_text = ''C''\<rparr>
      else if url = Some ''http://d.example'' then Inr \<lparr>status_code = 200, response_text = ''D''\<rparr>
      else if url = None then Inl (Exception ''Invalid URL'')
      else Inl (Exception ''Connection refused''))"

definition example_soup :: "string \<Rightarrow> exn + soup" where
  "example_soup html =
     (if html = ''A'' then Inr \<lparr>soup_title = Some (Some ''Example''), p_texts = [''one'', ''two'']\<rparr>
      else if html = ''C'' then Inr \<lparr>soup_title = Some None, p_texts = []\<rparr>
      else if html = ''D'' then Inr \<lparr>soup_title = None, p_texts = [''four'']\<rparr>
      else Inl (Exception ''bad markup''))"

definition example_services :: "int services" where
  "example_services =
     \<lparr>completions_parse = (\<lambda>w model messages. (Inr (Some (example_parsed w)), w + 1)),
      get_dict = (\<lambda>w params. (Inr [''organic_results'' \<mapsto> example_organic], w + 1)),
      requests_get = (\<lambda>w url. (example_get url, w + 1)),
      HTTPError_message = (\<lambda>response. ''Server Error''),
      BeautifulSoup = example_soup,
      urlparse_netloc = (\<lambda>url. Inr (takeWhile (\<lambda>c. c \<noteq> CHR ''/'') (drop 7 url)))\<rparr>"

text \<open>The same world with a search provider whose answer has no \<open>organic_results\<close> key.\<close>

definition example_services_no_results :: "int services" where
  "example_services_no_results =
     example_services\<lparr>get_dict := (\<lambda>w params. (Inr [''error'' \<mapsto> []], w + 1))\<rparr>"

definition example_input :: ChatInput where
  "example_input = \<lparr>input_message = ''what is hol''\<rparr>"

definition example_information :: "string list" where
  "example_information =
     [''one two'',
      ''Error fetching content from None: Invalid URL'',
      ''Error fetching content from http://b.example: Server Error'',
      [],
      ''four'']"

definition example_links_list :: "string option list" where
  "example_links_list =
     [Some ''http://example.com'', None, Some ''http://b.example'', Some ''http://c.example'',
      Some ''http://d.example'']"

definition example_log :: "event list" where
  "example_log =
     [ParseCall (initial_messages example_input),
      SearchCall \<lparr>q = ''isabelle hol'', api_key = ''k2'', engine = ''google''\<rparr>] @
     map GetCall example_links_list @
     [ParseCall (final_messages example_input example_information),
      ParseCall (final_messages example_input example_information)]"

definition example_response :: Response where
  "example_response =
     \<lparr>summary = ''second summary'', full_explanation = ''third explanation'',
      relevant_sources = example_links_list,
      search_keywords = [''isabelle'', ''hol'']\<rparr>"

section \<open>The log of calls\<close>

lemma call_parse_log: "call_parse sv s model messages = (r, s') \<Longrightarrow> snd s' = snd s @ [ParseCall messages]"
  by (auto simp: call_parse_def split: prod.splits)

lemma call_search_log: "call_search sv s params = (r, s') \<Longrightarrow> snd s' = snd s @ [SearchCall params]"
  by (auto simp: call_search_def split: prod.splits)

lemma call_get_log: "call_get sv s url = (r, s') \<Longrightarrow> snd s' = snd s @ [GetCall url]"
  by (auto simp: call_get_def split: prod.splits)

lemma fetch_text_log: "fetch_text sv s url = (r, s') \<Longrightarrow> snd s' = snd s @ [GetCall url]"
  by (auto simp: fetch_text_def dest: call_get_log split: prod.splits sum.splits)

lemma fetch_entry_log: "fetch_entry sv s url = (entry, s') \<Longrightarrow> snd s' = snd s @ [GetCall url]"
  by (auto simp: fetch_entry_def dest: fetch_text_log split: prod.splits sum.splits)

lemma scrape_log:
  "scrape sv s urls acc = (infos, s') \<Longrightarrow> snd s' = snd s @ map GetCall urls"
proof (induction urls arbitrary: s acc)
  case Nil
  then show ?case by simp
next
  case (Cons url urls)
  obtain entry s1 where e: "fetch_entry sv s url = (entry, s1)"
    by (cases "fetch_entry sv s url")
  with Cons.prems have "scrape sv s1 urls (acc @ [entry]) = (infos, s')" by simp
  then have "snd s' = snd s1 @ map GetCall urls" by (rule Cons.IH)
  with fetch_entry_log [OF e] show ?case by simp
qed

lemma scrape_append:
  "scrape sv s (pre @ post) acc =
     (case scrape sv s pre acc of (acc', s') \<Rightarrow> scrape sv s' post acc')"
  by (induction pre arbitrary: s acc) (auto split: prod.splits)

lemma scrape_acc:
  "scrape sv s urls acc = (infos, s') \<Longrightarrow> \<exists>new. infos = acc @ new \<and> length new = length urls"
proof (induction urls arbitrary: s acc)
  case Nil
  then show ?case by simp
next
  case (Cons url urls)
  obtain entry s1 where e: "fetch_entry sv s url = (entry, s1)"
    by (cases "fetch_entry sv s url")
  with Cons.prems have "scrape sv s1 urls (acc @ [entry]) = (infos, s')" by simp
  from Cons.IH [OF this] obtain new where "infos = (acc @ [entry]) @ new" "length new = length urls"
    by blast
  then have "infos = acc @ (entry # new) \<and> length (entry # new) = length (url # urls)" by simp
  then show ?case by blast
qed

lemma chat_returns:
  assumes "chat sv environment s0 input = (Inr r, s)"
  obtains result s1 search_results s2 relevant_information s3 sr s4 fr where
    "call_parse sv s0 model_name (initial_messages input) = (Inr (Some result), s1)"
    "call_search sv s1 (make_search_params environment (search_keywords result))
       = (Inr search_results, s2)"
    "scrape sv s2 (first_links (get_organic_results search_results)) []
       = (relevant_information, s3)"
    "call_parse sv s3 model_name (final_messages input relevant_information)
       = (Inr (Some sr), s4)"
    "call_parse sv s4 model_name (final_messages input relevant_information)
       = (Inr (Some fr), s)"
    "r = result\<lparr>summary := summary sr, full_explanation := full_explanation fr,
                 relevant_sources := first_links (get_organic_results search_results)\<rparr>"
  using assms unfolding chat_def Let_def final_messages_def
  by (auto split: prod.splits sum.splits option.splits)

section \<open>The test world, evaluated\<close>

lemma example_scrape:
  "scrape example_services (2, lg) example_links_list [] =
     (example_information, (7, lg @ map GetCall example_links_list))"
  by (simp add: example_links_list_def example_information_def example_services_def
      example_get_def example_soup_def fetch_entry_def fetch_text_def call_get_def
      raise_for_status_def fetch_error_text_def format_url_def)

lemma example_call_parse:
  "call_parse example_services (w, lg) model messages =
     (Inr (Some (example_parsed w)), (w + 1, lg @ [ParseCall messages]))"
  by (simp add: call_parse_def example_services_def)

lemma example_call_search:
  "call_search example_services (w, lg) params =
     (Inr [''organic_results'' \<mapsto> example_organic], (w + 1, lg @ [SearchCall params]))"
  by (simp add: call_search_def example_services_def)

lemma example_first_links:
  "first_links (get_organic_results [''organic_results'' \<mapsto> example_organic]) = example_links_list"
  by (simp add: first_links_def get_organic_results_def example_organic_def example_links_list_def)

lemma example_chat:
  "chat example_services example_environment (0, []) example_input =
     (Inr example_response, (9, example_log))"
  unfolding chat_def Let_def
  by (simp add: example_call_parse example_call_search example_first_links example_scrape
      example_parsed_def make_search_params_def example_environment_def
      example_response_def example_log_def final_messages_def)

lemma example_no_results_parse:
  "call_parse example_services_no_results (w, lg) model messages =
     (Inr (Some (example_parsed w)), (w + 1, lg @ [ParseCall messages]))"
  by (simp add: call_parse_def example_services_no_results_def example_services_def)

lemma example_no_results_search:
  "call_search example_services_no_results (w, lg) params =
     (Inr [''error'' \<mapsto> []], (w + 1, lg @ [SearchCall params]))"
  by (simp add: call_search_def example_services_no_results_def example_services_def)

lemma example_no_results_chat:
  "chat example_services_no_results example_environment (0, []) example_input =
     (Inr \<lparr>summary = ''third summary'', full_explanation = ''third explanation'',
           relevant_sources = [], search_keywords = [''isabelle'', ''hol'']\<rparr>,
      (4, [ParseCall (initial_messages example_input),
           SearchCall \<lparr>q = ''isabelle hol'', api_key = ''k2'', engine = ''google''\<rparr>,
           ParseCall (final_messages example_input []),
           ParseCall (final_messages example_input [])]))"
  unfolding chat_def Let_def
  by (simp add: example_no_results_parse example_no_results_search first_links_def
      get_organic_results_def example_parsed_def make_search_params_def
      example_environment_def final_messages_def)

section \<open>The response of /chat\<close>

text \<open>
  C1. A /chat request that returns a response returns the result of the first completion
  call with its \<open>summary\<close> replaced by that of the second call's result, its
  \<open>full_explanation\<close> by that of the third call's result and its
  \<open>relevant_sources\<close> by the links taken from the search; its
  \<open>search_keywords\<close> are those of the first call's result, unchanged.
\<close>

theorem chat_keeps_first_keywords:
  assumes "chat sv environment s0 input = (Inr r, s)"
  shows "\<exists>result s1 search_results s2 relevant_information s3 sr s4 fr.
           call_parse sv s0 model_name (initial_messages input) = (Inr (Some result), s1) \<and>
           call_search sv s1 (make_search_params environment (search_keywords result))
             = (Inr search_results, s2) \<and>
           scrape sv s2 (first_links (get_organic_results search_results)) []
             = (relevant_information, s3) \<and>
           call_parse sv s3 model_name (final_messages input relevant_information)
             = (Inr (Some sr), s4) \<and>
           call_parse sv s4 model_name (final_messages input relevant_information)
             = (Inr (Some fr), s) \<and>
           summary r = summary sr \<and>
           full_explanation r = full_explanation fr \<and>
           relevant_sources r = first_links (get_organic_results search_results) \<and>
           search_keywords r = search_keywords result"
proof -
  from assms obtain result s1 search_results s2 relevant_information s3 sr s4 fr where
    "call_parse sv s0 model_name (initial_messages input) = (Inr (Some result), s1)"
    "call_search sv s1 (make_search_params environment (search_keywords result))
       = (Inr search_results, s2)"
    "scrape sv s2 (first_links (get_organic_results search_results)) []
       = (relevant_information, s3)"
    "call_parse sv s3 model_name (final_messages input relevant_information)
       = (Inr (Some sr), s4)"
    "call_parse sv s4 model_name (final_messages input relevant_information)
       = (Inr (Some fr), s)"
    "r = result\<lparr>summary := summary sr, full_explanation := full_explanation fr,
                 relevant_sources := first_links (get_organic_results search_results)\<rparr>"
    by (rule chat_returns)
  then show ?thesis
    by (intro exI conjI) (assumption | simp)+
qed

theorem chat_keeps_first_keywords_witness:
  "chat example_services example_environment (0, []) example_input
     = (Inr example_response, (9, example_log)) \<and>
   search_keywords example_response = search_keywords (example_parsed 0) \<and>
   summary example_response = summary (example_parsed 7) \<and>
   full_explanation example_response = full_explanation (example_parsed 8) \<and>
   relevant_sources example_response = example_links_list"
  using chat_keeps_first_keywords [OF example_chat]
  by (simp add: example_chat example_response_def example_parsed_def)

text \<open>
  C2. In a /chat response, \<open>relevant_sources\<close> is the list of the \<open>link\<close> values of the
  first five organic results of the search, in order: at most 5 entries, at most as many
  as there are organic results, and none when there are none.
\<close>

theorem relevant_sources_first_five_links:
  assumes "chat sv environment s0 input = (Inr r, s)"
  shows "\<exists>result s1 search_results s2.
           call_parse sv s0 model_name (initial_messages input) = (Inr (Some result), s1) \<and>
           call_search sv s1 (make_search_params environment (search_keywords result))
             = (Inr search_results, s2) \<and>
           relevant_sources r =
             map (\<lambda>entry. entry ''link'') (take 5 (get_organic_results search_results)) \<and>
           length (relevant_sources r) \<le> 5 \<and>
           length (relevant_sources r) \<le> length (get_organic_results search_results) \<and>
           (get_organic_results search_results = [] \<longrightarrow> relevant_sources r = [])"
proof -
  from assms obtain result s1 search_results s2 where
    a: "call_parse sv s0 model_name (initial_messages input) = (Inr (Some result), s1)"
    and b: "call_search sv s1 (make_search_params environment (search_keywords result))
              = (Inr search_results, s2)"
    and c: "relevant_sources r = first_links (get_organic_results search_results)"
    by (rule chat_returns) simp
  from c have "relevant_sources r =
      map (\<lambda>entry. entry ''link'') (take 5 (get_organic_results search_results))"
    by (simp add: first_links_def)
  moreover from this have "length (relevant_sources r) \<le> 5"
    and "length (relevant_sources r) \<le> length (get_organic_results search_results)"
    and "get_organic_results search_results = [] \<longrightarrow> relevant_sources r = []"
    by simp_all
  ultimately show ?thesis using a b by blast
qed

theorem relevant_sources_first_five_links_witness:
  "chat example_services example_environment (0, []) example_input
     = (Inr example_response, (9, example_log)) \<and>
   length example_organic = 6 \<and>
   relevant_sources example_response = map (\<lambda>entry. entry ''link'') (take 5 example_organic) \<and>
   length (relevant_sources example_response) = 5 \<and>
   get_organic_results [''error'' \<mapsto> []] = [] \<and>
   (\<exists>r s. chat example_services_no_results example_environment (0, []) example_input
            = (Inr r, s) \<and> relevant_sources r = [])"
  using relevant_sources_first_five_links [OF example_chat]
    relevant_sources_first_five_links [OF example_no_results_chat]
  by (simp add: example_chat example_no_results_chat example_response_def
      example_links_list_def example_organic_def get_organic_results_def)

section \<open>The calls of /chat\<close>

lemma filter_parse_GetCall: "filter is_parse_call (map GetCall urls) = []"
  by (induction urls) simp_all

lemma filter_search_GetCall: "filter is_search_call (map GetCall urls) = []"
  by (induction urls) simp_all

lemma chat_log:
  assumes "chat sv environment s0 input = (Inr r, s)"
  shows "\<exists>(result :: Response) search_results relevant_information.
           snd s = snd s0 @
             [ParseCall (initial_messages input),
              SearchCall (make_search_params environment (search_keywords result))] @
             map GetCall (first_links (get_organic_results search_results)) @
             [ParseCall (final_messages input relevant_information),
              ParseCall (final_messages input relevant_information)]"
proof -
  from assms obtain result s1 search_results s2 relevant_information s3 sr s4 fr where
    a: "call_parse sv s0 model_name (initial_messages input) = (Inr (Some result), s1)"
    and b: "call_search sv s1 (make_search_params environment (search_keywords result))
       = (Inr search_results, s2)"
    and c: "scrape sv s2 (first_links (get_organic_results search_results)) []
       = (relevant_information, s3)"
    and d: "call_parse sv s3 model_name (final_messages input relevant_information)
       = (Inr (Some sr), s4)"
    and e: "call_parse sv s4 model_name (final_messages input relevant_information)
       = (Inr (Some fr), s)"
    by (rule chat_returns)
  have "snd s = snd s0 @
             [ParseCall (initial_messages input),
              SearchCall (make_search_params environment (search_keywords result))] @
             map GetCall (first_links (get_organic_results search_results)) @
             [ParseCall (final_messages input relevant_information),
              ParseCall (final_messages input relevant_information)]"
    using call_parse_log [OF a] call_search_log [OF b] scrape_log [OF c]
      call_parse_log [OF d] call_parse_log [OF e] by simp
  then show ?thesis by (intro exI) assumption
qed

text \<open>
  C8. A /chat request that returns a response has called the completion client three
  times (so at least three times) and the search client exactly once, whatever the
  \<open>input_message\<close>. The log starts empty when the handler starts.
\<close>

theorem chat_call_counts:
  assumes "chat sv environment (w, []) input = (Inr r, (w', calls))"
  shows "length (filter is_parse_call calls) = 3 \<and> length (filter is_search_call calls) = 1"
proof -
  from chat_log [OF assms] obtain result :: Response and search_results relevant_information where
    "calls =
       [ParseCall (initial_messages input),
        SearchCall (make_search_params environment (search_keywords result))] @
       map GetCall (first_links (get_organic_results search_results)) @
       [ParseCall (final_messages input relevant_information),
        ParseCall (final_messages input relevant_information)]"
    by auto
  then show ?thesis
    by (simp add: filter_parse_GetCall filter_search_GetCall)
qed

theorem chat_call_counts_witness:
  "chat example_services example_environment (0, []) example_input
     = (Inr example_response, (9, example_log)) \<and>
   length (filter is_parse_call example_log) = 3 \<and>
   length (filter is_search_call example_log) = 1"
  using chat_call_counts [OF example_chat] by (simp add: example_chat)

text \<open>
  C5. The last two calls of a /chat request that returns a response are completion calls
  with the same message list: the two original messages followed by the summarize and
  the explain instruction, both built on the same corpus. The result of the first of
  them gives the returned \<open>summary\<close>, the result of the second the returned
  \<open>full_explanation\<close>.
\<close>

theorem final_calls_same_messages:
  assumes "chat sv environment s0 input = (Inr r, s)"
  shows "\<exists>relevant_information s3 sr s4 fr.
           call_parse sv s3 model_name (final_messages input relevant_information)
             = (Inr (Some sr), s4) \<and>
           call_parse sv s4 model_name (final_messages input relevant_information)
             = (Inr (Some fr), s) \<and>
           snd s = snd s3 @ [ParseCall (final_messages input relevant_information),
                             ParseCall (final_messages input relevant_information)] \<and>
           final_messages input relevant_information =
             [\<lparr>role = ''system'', content = preamble\<rparr>,
              \<lparr>role = ''user'', content = input_message input\<rparr>,
              \<lparr>role = ''system'',
               content = ''Summarize the following information: '' @
                         join '' '' relevant_information\<rparr>,
              \<lparr>role = ''system'',
               content = ''Give a detailed explanation of the following information: '' @
                         join '' '' relevant_information\<rparr>] \<and>
           summary r = summary sr \<and>
           full_explanation r = full_explanation fr"
proof -
  from assms obtain result s1 search_results s2 relevant_information s3 sr s4 fr where
    a: "call_parse sv s0 model_name (initial_messages input) = (Inr (Some result), s1)"
    and b: "call_search sv s1 (make_search_params environment (search_keywords result))
       = (Inr search_results, s2)"
    and c: "scrape sv s2 (first_links (get_organic_results search_results)) []
       = (relevant_information, s3)"
    and d: "call_parse sv s3 model_name (final_messages input relevant_information)
       = (Inr (Some sr), s4)"
    and e: "call_parse sv s4 model_name (final_messages input relevant_information)
       = (Inr (Some fr), s)"
    and r: "r = result\<lparr>summary := summary sr, full_explanation := full_explanation fr,
                 relevant_sources := first_links (get_organic_results search_results)\<rparr>"
    by (rule chat_returns)
  have "snd s = snd s3 @ [ParseCall (final_messages input relevant_information),
                          ParseCall (final_messages input relevant_information)]"
    using call_parse_log [OF d] call_parse_log [OF e] by simp
  moreover have "final_messages input relevant_information =
             [\<lparr>role = ''system'', content = preamble\<rparr>,
              \<lparr>role = ''user'', content = input_message input\<rparr>,
              \<lparr>role = ''system'',
               content = ''Summarize the following information: '' @
                         join '' '' relevant_information\<rparr>,
              \<lparr>role = ''system'',
               content = ''Give a detailed explanation of the following information: '' @
                         join '' '' relevant_information\<rparr>]"
    by (simp add: final_messages_def initial_messages_def summarize_message_def
        explain_message_def)
  moreover from r have "summary r = summary sr" "full_explanation r = full_explanation fr"
    by simp_all
  ultimately show ?thesis using d e by blast
qed

theorem final_calls_same_messages_witness:
  "chat example_services example_environment (0, []) example_input
     = (Inr example_response, (9, example_log)) \<and>
   drop 7 example_log = [ParseCall (final_messages example_input example_information),
                         ParseCall (final_messages example_input example_information)] \<and>
   summary example_response = summary (example_parsed 7) \<and>
   full_explanation example_response = full_explanation (example_parsed 8)"
  using final_calls_same_messages [OF example_chat]
  by (simp add: example_chat example_log_def example_links_list_def example_response_def
      example_parsed_def)

section \<open>The scraping loop\<close>

lemma upstream_call_parse:
  assumes "upstream_answers sv"
  obtains result s' where "call_parse sv s model messages = (Inr (Some result), s')"
proof -
  from assms obtain result w' where
    "completions_parse sv (fst s) model messages = (Inr (Some result), w')"
    unfolding upstream_answers_def by blast
  then have "call_parse sv s model messages
      = (Inr (Some result), (w', snd s @ [ParseCall messages]))"
    by (simp add: call_parse_def)
  then show ?thesis by (rule that)
qed

lemma upstream_call_search:
  assumes "upstream_answers sv"
  obtains search_results s' where "call_search sv s params = (Inr search_results, s')"
proof -
  from assms obtain search_results w' where
    "get_dict sv (fst s) params = (Inr search_results, w')"
    unfolding upstream_answers_def by blast
  then have "call_search sv s params
      = (Inr search_results, (w', snd s @ [SearchCall params]))"
    by (simp add: call_search_def)
  then show ?thesis by (rule that)
qed

lemma chat_completes:
  assumes up: "upstream_answers sv"
  shows "\<exists>r s. chat sv environment s0 input = (Inr r, s)"
proof -
  from up obtain result s1 where
    a: "call_parse sv s0 model_name (initial_messages input) = (Inr (Some result), s1)"
    by (rule upstream_call_parse)
  from up obtain search_results s2 where
    b: "call_search sv s1 (make_search_params environment (search_keywords result))
          = (Inr search_results, s2)"
    by (rule upstream_call_search)
  obtain relevant_information s3 where
    c: "scrape sv s2 (first_links (get_organic_results search_results)) []
          = (relevant_information, s3)"
    by (cases "scrape sv s2 (first_links (get_organic_results search_results)) []")
  from up obtain sr s4 where
    d: "call_parse sv s3 model_name (final_messages input relevant_information)
          = (Inr (Some sr), s4)"
    by (rule upstream_call_parse)
  from up obtain fr s5 where
    e: "call_parse sv s4 model_name (final_messages input relevant_information)
          = (Inr (Some fr), s5)"
    by (rule upstream_call_parse)
  from a b c d e show ?thesis
    unfolding chat_def Let_def final_messages_def by simp
qed

lemma chat_after_search:
  assumes "call_parse sv s0 model_name (initial_messages input) = (Inr (Some result), s1)"
    and "call_search sv s1 (make_search_params environment (search_keywords result))
           = (Inr search_results, s2)"
    and "scrape sv s2 (first_links (get_organic_results search_results)) []
           = (relevant_information, s5)"
  shows "chat sv environment s0 input = (Inr r, s) \<longleftrightarrow>
           (\<exists>sr s6 fr.
              call_parse sv s5 model_name (final_messages input relevant_information)
                = (Inr (Some sr), s6) \<and>
              call_parse sv s6 model_name (final_messages input relevant_information)
                = (Inr (Some fr), s) \<and>
              r = result\<lparr>summary := summary sr, full_explanation := full_explanation fr,
                           relevant_sources :=
                             first_links (get_organic_results search_results)\<rparr>)"
  unfolding chat_def Let_def final_messages_def using assms
  by (auto split: prod.splits sum.splits option.splits)

lemma fetch_entry_raises:
  assumes "case requests_get sv (fst s) url of
             (Inl e', w) \<Rightarrow> e' = e \<and> w = w'
           | (Inr response, w) \<Rightarrow> w = w' \<and>
               (if 400 \<le> status_code response \<and> status_code response < 600
                then e = Exception (HTTPError_message sv response)
                else BeautifulSoup sv (response_text response) = Inl e)"
  shows "fetch_entry sv s url =
           (''Error fetching content from '' @ format_url url @ '': '' @ str e,
            (w', snd s @ [GetCall url]))"
  using assms
  by (auto simp: fetch_entry_def fetch_text_def call_get_def raise_for_status_def
      fetch_error_text_def split: prod.splits sum.splits if_splits)

text \<open>
  C3. In a /chat request, when \<open>requests.get\<close> raises for a link, answers with a 4xx or
  5xx status, or the page cannot be parsed (the loop having handled the links before it),
  the entry appended for that link is the text
  "Error fetching content from {url}: {error}". The exception does not leave the loop:
  the links after it are fetched in order, the corpus has one entry per link with that
  text at the link's position, both final completion calls receive that corpus, and the
  request returns a response when they answer.
\<close>

theorem fetch_failure_becomes_sentinel:
  assumes first: "call_parse sv s0 model_name (initial_messages input) = (Inr (Some result), s1)"
    and search: "call_search sv s1 (make_search_params environment (search_keywords result))
                   = (Inr search_results, s2)"
    and links: "first_links (get_organic_results search_results) = pre @ url # post"
    and before: "scrape sv s2 pre [] = (acc, s3)"
    and raises: "case requests_get sv (fst s3) url of
                   (Inl e', w) \<Rightarrow> e' = e \<and> w = w4
                 | (Inr response, w) \<Rightarrow> w = w4 \<and>
                     (if 400 \<le> status_code response \<and> status_code response < 600
                      then e = Exception (HTTPError_message sv response)
                      else BeautifulSoup sv (response_text response) = Inl e)"
    and rest: "scrape sv (w4, snd s3 @ [GetCall url]) post
                 (acc @ [''Error fetching content from '' @ format_url url @ '': '' @ str e])
                 = (relevant_information, s5)"
  shows "scrape sv s2 (first_links (get_organic_results search_results)) []
           = (relevant_information, s5) \<and>
         length relevant_information = length (pre @ url # post) \<and>
         take (length pre) relevant_information = acc \<and>
         relevant_information ! length pre =
           ''Error fetching content from '' @ format_url url @ '': '' @ str e \<and>
         snd s5 = snd s2 @ map GetCall (pre @ url # post) \<and>
         (\<forall>sr s6 fr s7.
            call_parse sv s5 model_name (final_messages input relevant_information)
              = (Inr (Some sr), s6) \<and>
            call_parse sv s6 model_name (final_messages input relevant_information)
              = (Inr (Some fr), s7) \<longrightarrow>
            chat sv environment s0 input =
              (Inr (result\<lparr>summary := summary sr, full_explanation := full_explanation fr,
                           relevant_sources := pre @ url # post\<rparr>), s7)) \<and>
         (\<forall>r s. chat sv environment s0 input = (Inr r, s) \<longrightarrow>
            relevant_sources r = pre @ url # post \<and>
            snd s = snd s5 @ [ParseCall (final_messages input relevant_information),
                              ParseCall (final_messages input relevant_information)]) \<and>
         (upstream_answers sv \<longrightarrow>
            (\<exists>r s. chat sv environment s0 input = (Inr r, s) \<and>
                   snd s = snd s5 @ [ParseCall (final_messages input relevant_information),
                                     ParseCall (final_messages input relevant_information)]))"
proof -
  let ?entry = "''Error fetching content from '' @ format_url url @ '': '' @ str e"
  let ?links = "first_links (get_organic_results search_results)"
  let ?final = "final_messages input relevant_information"
  have entry: "fetch_entry sv s3 url = (?entry, (w4, snd s3 @ [GetCall url]))"
    using raises by (rule fetch_entry_raises)
  have "scrape sv s2 (pre @ url # post) [] =
      (case scrape sv s2 pre [] of (acc', s') \<Rightarrow> scrape sv s' (url # post) acc')"
    by (rule scrape_append)
  also have "\<dots> = scrape sv s3 (url # post) acc"
    by (simp only: before prod.case)
  also have "\<dots> = scrape sv (w4, snd s3 @ [GetCall url]) post (acc @ [?entry])"
    by (simp only: scrape.simps entry prod.case)
  also have "\<dots> = (relevant_information, s5)"
    by (rule rest)
  finally have whole: "scrape sv s2 ?links [] = (relevant_information, s5)"
    by (simp only: links)
  from scrape_acc [OF before] have len_acc: "length acc = length pre" by auto
  from scrape_acc [OF rest] obtain new where
    new: "relevant_information = (acc @ [?entry]) @ new" "length new = length post" by blast
  have len: "length relevant_information = length (pre @ url # post)"
    using new len_acc by simp
  have tk: "take (length pre) relevant_information = acc"
    using new len_acc by simp
  have nth: "relevant_information ! length pre = ?entry"
    using new len_acc by (simp add: nth_append)
  have log: "snd s5 = snd s2 @ map GetCall (pre @ url # post)"
    using scrape_log [OF whole] by (simp only: links)
  note iff = chat_after_search [OF first search whole]
  have suff: "\<forall>sr s6 fr s7.
            call_parse sv s5 model_name ?final = (Inr (Some sr), s6) \<and>
            call_parse sv s6 model_name ?final = (Inr (Some fr), s7) \<longrightarrow>
            chat sv environment s0 input =
              (Inr (result\<lparr>summary := summary sr, full_explanation := full_explanation fr,
                           relevant_sources := pre @ url # post\<rparr>), s7)"
    using iff by (auto simp: links)
  have nec: "\<forall>r s. chat sv environment s0 input = (Inr r, s) \<longrightarrow>
            relevant_sources r = pre @ url # post \<and>
            snd s = snd s5 @ [ParseCall ?final, ParseCall ?final]"
  proof (intro allI impI)
    fix r s
    assume "chat sv environment s0 input = (Inr r, s)"
    then obtain sr s6 fr where
      d: "call_parse sv s5 model_name ?final = (Inr (Some sr), s6)"
      and e: "call_parse sv s6 model_name ?final = (Inr (Some fr), s)"
      and r: "r = result\<lparr>summary := summary sr, full_explanation := full_explanation fr,
                         relevant_sources := ?links\<rparr>"
      using iff by blast
    from r have "relevant_sources r = pre @ url # post" by (simp add: links)
    moreover have "snd s = snd s5 @ [ParseCall ?final, ParseCall ?final]"
      using call_parse_log [OF d] call_parse_log [OF e] by simp
    ultimately show "relevant_sources r = pre @ url # post \<and>
            snd s = snd s5 @ [ParseCall ?final, ParseCall ?final]" by (rule conjI)
  qed
  have compl: "upstream_answers sv \<longrightarrow>
            (\<exists>r s. chat sv environment s0 input = (Inr r, s) \<and>
                   snd s = snd s5 @ [ParseCall ?final, ParseCall ?final])"
  proof
    assume "upstream_answers sv"
    then obtain r s where c: "chat sv environment s0 input = (Inr r, s)"
      using chat_completes by blast
    with nec have "snd s = snd s5 @ [ParseCall ?final, ParseCall ?final]" by blast
    with c show "\<exists>r s. chat sv environment s0 input = (Inr r, s) \<and>
                   snd s = snd s5 @ [ParseCall ?final, ParseCall ?final]" by blast
  qed
  from whole len tk nth log suff nec compl show ?thesis
    by (intro conjI)
qed

lemma example_upstream: "upstream_answers example_services"
  by (simp add: upstream_answers_def example_services_def)

lemma example_w1:
  "call_parse example_services (0, []) model_name (initial_messages example_input) =
     (Inr (Some (example_parsed 0)), (1, [ParseCall (initial_messages example_input)]))"
  using example_call_parse [of 0 "[]"] by simp

lemma example_w2:
  "call_search example_services (1, [ParseCall (initial_messages example_input)])
     (make_search_params example_environment (search_keywords (example_parsed 0))) =
     (Inr [''organic_results'' \<mapsto> example_organic], (2, take 2 example_log))"
  using example_call_search [of 1]
  by (simp add: make_search_params_def example_parsed_def example_environment_def
      example_log_def)

theorem fetch_failure_becomes_sentinel_witness:
  "first_links (get_organic_results [''organic_results'' \<mapsto> example_organic]) =
     [Some ''http://example.com'', None] @
       Some ''http://b.example'' # [Some ''http://c.example'', Some ''http://d.example''] \<and>
   scrape example_services (2, take 2 example_log) [Some ''http://example.com'', None] [] =
     ([''one two'', ''Error fetching content from None: Invalid URL''],
      (4, take 4 example_log)) \<and>
   requests_get example_services 4 (Some ''http://b.example'') =
     (Inr \<lparr>status_code = 500, response_text = ''B''\<rparr>, 5) \<and>
   scrape example_services (2, take 2 example_log)
       (first_links (get_organic_results [''organic_results'' \<mapsto> example_organic])) [] =
     (example_information, (7, take 7 example_log)) \<and>
   example_information ! 2 = ''Error fetching content from http://b.example: Server Error'' \<and>
   length example_information = 5 \<and>
   upstream_answers example_services \<and>
   chat example_services example_environment (0, []) example_input =
     (Inr example_response, (9, example_log))"
proof -
  let ?acc = "[''one two'', ''Error fetching content from None: Invalid URL'']"
  have links: "first_links (get_organic_results [''organic_results'' \<mapsto> example_organic]) =
     [Some ''http://example.com'', None] @
       Some ''http://b.example'' # [Some ''http://c.example'', Some ''http://d.example'']"
    by (simp add: first_links_def get_organic_results_def example_organic_def)
  have before: "scrape example_services (2, take 2 example_log)
      [Some ''http://example.com'', None] [] = (?acc, (4, take 4 example_log))"
    by (simp add: example_services_def example_get_def example_soup_def fetch_entry_def
        fetch_text_def call_get_def raise_for_status_def fetch_error_text_def format_url_def
        example_log_def example_links_list_def)
  have get: "requests_get example_services 4 (Some ''http://b.example'') =
     (Inr \<lparr>status_code = 500, response_text = ''B''\<rparr>, 5)"
    by (simp add: example_services_def example_get_def)
  have raises: "case requests_get example_services (fst (4, take 4 example_log))
                  (Some ''http://b.example'') of
       (Inl e', w) \<Rightarrow> e' = Exception ''Server Error'' \<and> w = 5
     | (Inr response, w) \<Rightarrow> w = 5 \<and>
         (if 400 \<le> status_code response \<and> status_code response < 600
          then Exception ''Server Error'' = Exception (HTTPError_message example_services response)
          else BeautifulSoup example_services (response_text response)
                 = Inl (Exception ''Server Error''))"
    by (simp add: get) (simp add: example_services_def)
  have rest: "scrape example_services
      (5, snd (4::int, take 4 example_log) @ [GetCall (Some ''http://b.example'')])
      [Some ''http://c.example'', Some ''http://d.example'']
      (?acc @ [''Error fetching content from '' @ format_url (Some ''http://b.example'') @
               '': '' @ str (Exception ''Server Error'')])
      = (example_information, (7, take 7 example_log))"
    by (simp add: example_services_def example_get_def example_soup_def fetch_entry_def
        fetch_text_def call_get_def raise_for_status_def fetch_error_text_def format_url_def
        example_log_def example_links_list_def example_information_def)
  note sentinel = fetch_failure_becomes_sentinel [OF example_w1 example_w2 links before raises rest]
  have whole: "scrape example_services (2, take 2 example_log)
       (first_links (get_organic_results [''organic_results'' \<mapsto> example_organic])) [] =
     (example_information, (7, take 7 example_log))"
    using sentinel [THEN conjunct1] .
  have nth: "example_information ! 2 =
      ''Error fetching content from http://b.example: Server Error''"
    using sentinel [THEN conjunct2, THEN conjunct2, THEN conjunct2, THEN conjunct1]
    by (simp add: format_url_def numeral_2_eq_2)
  have len: "length example_information = 5"
    using sentinel [THEN conjunct2, THEN conjunct1] by simp
  have p3: "call_parse example_services (7, take 7 example_log) model_name
      (final_messages example_input example_information) =
      (Inr (Some (example_parsed 7)), (8, take 8 example_log))"
    using example_call_parse [of 7 "take 7 example_log"]
    by (simp add: example_log_def example_links_list_def)
  have p4: "call_parse example_services (8, take 8 example_log) model_name
      (final_messages example_input example_information) =
      (Inr (Some (example_parsed 8)), (9, example_log))"
    using example_call_parse [of 8 "take 8 example_log"]
    by (simp add: example_log_def example_links_list_def)
  have "chat example_services example_environment (0, []) example_input =
      (Inr (example_parsed 0
              \<lparr>summary := summary (example_parsed 7),
                 full_explanation := full_explanation (example_parsed 8),
                 relevant_sources := [Some ''http://example.com'', None] @
                   Some ''http://b.example'' #
                   [Some ''http://c.example'', Some ''http://d.example'']\<rparr>),
       (9, example_log))"
    using sentinel [THEN conjunct2, THEN conjunct2, THEN conjunct2, THEN conjunct2,
        THEN conjunct2, THEN conjunct1] p3 p4 by blast
  then have chat: "chat example_services example_environment (0, []) example_input =
     (Inr example_response, (9, example_log))"
    by (simp add: example_parsed_def example_response_def example_links_list_def)
  have up: "upstream_answers example_services"
    by (rule example_upstream)
  from links before get whole nth len up chat show ?thesis
    by (intro conjI)
qed

section \<open>The links taken from the search\<close>

text \<open>
  C7. When the dictionary returned by the search provider has no \<open>organic_results\<close> key,
  line 87 yields the empty list and raises nothing: there are no links, nothing is
  fetched, the two final completion calls are made on the empty corpus, and the response
  has an empty \<open>relevant_sources\<close>.
\<close>

theorem missing_organic_results_gives_no_sources:
  assumes "call_parse sv s0 model_name (initial_messages input) = (Inr (Some result), s1)"
    and "call_search sv s1 (make_search_params environment (search_keywords result))
           = (Inr search_results, s2)"
    and "search_results ''organic_results'' = None"
    and "call_parse sv s2 model_name (final_messages input []) = (Inr (Some sr), s3)"
    and "call_parse sv s3 model_name (final_messages input []) = (Inr (Some fr), s4)"
  shows "get_organic_results search_results = [] \<and>
         first_links (get_organic_results search_results) = [] \<and>
         chat sv environment s0 input =
           (Inr (result\<lparr>summary := summary sr, full_explanation := full_explanation fr,
                        relevant_sources := []\<rparr>), s4)"
proof -
  have organic: "get_organic_results search_results = []"
    using assms(3) by (simp add: get_organic_results_def)
  then have links: "first_links (get_organic_results search_results) = []"
    by (simp add: first_links_def)
  have "chat sv environment s0 input =
           (Inr (result\<lparr>summary := summary sr, full_explanation := full_explanation fr,
                        relevant_sources := []\<rparr>), s4)"
    unfolding chat_def Let_def
    using assms(1,2,4,5) by (simp add: links final_messages_def)
  with organic links show ?thesis by (intro conjI)
qed

theorem missing_organic_results_gives_no_sources_witness:
  "[''error'' \<mapsto> []] ''organic_results'' = (None :: (string \<rightharpoonup> string) list option) \<and>
   chat example_services_no_results example_environment (0, []) example_input =
     (Inr \<lparr>summary = ''third summary'', full_explanation = ''third explanation'',
           relevant_sources = [], search_keywords = [''isabelle'', ''hol'']\<rparr>,
      (4, [ParseCall (initial_messages example_input),
           SearchCall \<lparr>q = ''isabelle hol'', api_key = ''k2'', engine = ''google''\<rparr>,
           ParseCall (final_messages example_input []),
           ParseCall (final_messages example_input [])]))"
proof -
  have none: "[''error'' \<mapsto> []] ''organic_results'' = (None :: (string \<rightharpoonup> string) list option)"
    by simp
  have p1: "call_parse example_services_no_results (0, []) model_name
      (initial_messages example_input) =
      (Inr (Some (example_parsed 0)), (1, [ParseCall (initial_messages example_input)]))"
    using example_no_results_parse [of 0 "[]"] by simp
  have p2: "call_search example_services_no_results
      (1, [ParseCall (initial_messages example_input)])
      (make_search_params example_environment (search_keywords (example_parsed 0))) =
      (Inr [''error'' \<mapsto> []],
       (2, [ParseCall (initial_messages example_input),
            SearchCall \<lparr>q = ''isabelle hol'', api_key = ''k2'', engine = ''google''\<rparr>]))"
    using example_no_results_search [of 1] 
    by (simp add: make_search_params_def example_parsed_def example_environment_def)
  have p3: "call_parse example_services_no_results
      (2, [ParseCall (initial_messages example_input),
            SearchCall \<lparr>q = ''isabelle hol'', api_key = ''k2'', engine = ''google''\<rparr>])
      model_name (final_messages example_input []) =
      (Inr (Some (example_parsed 2)),
       (3, [ParseCall (initial_messages example_input),
            SearchCall \<lparr>q = ''isabelle hol'', api_key = ''k2'', engine = ''google''\<rparr>,
            ParseCall (final_messages example_input [])]))"
    using example_no_results_parse [of 2] by simp
  have p4: "call_parse example_services_no_results
      (3, [ParseCall (initial_messages example_input),
            SearchCall \<lparr>q = ''isabelle hol'', api_key = ''k2'', engine = ''google''\<rparr>,
            ParseCall (final_messages example_input [])])
      model_name (final_messages example_input []) =
      (Inr (Some (example_parsed 3)),
       (4, [ParseCall (initial_messages example_input),
            SearchCall \<lparr>q = ''isabelle hol'', api_key = ''k2'', engine = ''google''\<rparr>,
            ParseCall (final_messages example_input []),
            ParseCall (final_messages example_input [])]))"
    using example_no_results_parse [of 3] by simp
  from missing_organic_results_gives_no_sources [OF p1 p2 none p3 p4] none show ?thesis
    by (simp add: example_parsed_def)
qed

lemma fetch_entry_calls_get:
  assumes "requests_get sv (fst s) url = (answer, w')"
  shows "\<exists>entry. fetch_entry sv s url = (entry, (w', snd s @ [GetCall url])) \<and>
           (\<forall>e. answer = Inl e \<longrightarrow>
              entry = ''Error fetching content from '' @ format_url url @ '': '' @ str e)"
  using assms
  by (auto simp: fetch_entry_def fetch_text_def call_get_def fetch_error_text_def
      split: prod.splits sum.splits)

text \<open>
  C9. In a /chat request, an entry without a \<open>link\<close> key among the first five organic
  results is not skipped: the list of links keeps its length and holds \<open>None\<close> at the
  entry's position, so the returned \<open>relevant_sources\<close> holds \<open>None\<close> there, and the
  loop calls \<open>requests.get\<close> with \<open>None\<close> at that iteration, appending the entry that
  this call gives before going on with the links after it.
\<close>

theorem missing_link_gives_None:
  assumes first: "call_parse sv s0 model_name (initial_messages input) = (Inr (Some result), s1)"
    and search: "call_search sv s1 (make_search_params environment (search_keywords result))
                   = (Inr search_results, s2)"
    and i5: "i < 5"
    and ilen: "i < length (get_organic_results search_results)"
    and nolink: "(get_organic_results search_results ! i) ''link'' = None"
    and before: "scrape sv s2 (take i (first_links (get_organic_results search_results))) []
                   = (acc, s3)"
    and get: "requests_get sv (fst s3) None = (answer, w4)"
  shows "length (first_links (get_organic_results search_results)) =
           min 5 (length (get_organic_results search_results)) \<and>
         first_links (get_organic_results search_results) ! i = None \<and>
         (\<exists>entry.
            fetch_entry sv s3 None = (entry, (w4, snd s3 @ [GetCall None])) \<and>
            (\<forall>e. answer = Inl e \<longrightarrow>
               entry = ''Error fetching content from None: '' @ str e) \<and>
            scrape sv s2 (first_links (get_organic_results search_results)) [] =
              scrape sv (w4, snd s3 @ [GetCall None])
                (drop (Suc i) (first_links (get_organic_results search_results)))
                (acc @ [entry])) \<and>
         (\<forall>r s. chat sv environment s0 input = (Inr r, s) \<longrightarrow>
            relevant_sources r ! i = None \<and>
            length (relevant_sources r) = min 5 (length (get_organic_results search_results)) \<and>
            snd s ! (length (snd s2) + i) = GetCall None)"
proof -
  let ?links = "first_links (get_organic_results search_results)"
  have len: "length ?links = min 5 (length (get_organic_results search_results))"
    by (simp add: first_links_def min.commute)
  have nth: "?links ! i = None"
    using i5 ilen nolink by (simp add: first_links_def)
  have ilinks: "i < length ?links"
    using i5 ilen len by simp
  have split: "?links = take i ?links @ None # drop (Suc i) ?links"
    using id_take_nth_drop [OF ilinks] nth by simp
  from fetch_entry_calls_get [OF get] obtain entry where
    entry: "fetch_entry sv s3 None = (entry, (w4, snd s3 @ [GetCall None]))"
    and sentinel: "\<forall>e. answer = Inl e \<longrightarrow>
               entry = ''Error fetching content from None: '' @ str e"
    by (auto simp: format_url_def)
  have "scrape sv s2 (take i ?links @ None # drop (Suc i) ?links) [] =
      (case scrape sv s2 (take i ?links) [] of
         (acc', s') \<Rightarrow> scrape sv s' (None # drop (Suc i) ?links) acc')"
    by (rule scrape_append)
  also have "\<dots> = scrape sv s3 (None # drop (Suc i) ?links) acc"
    by (simp only: before prod.case)
  also have "\<dots> = scrape sv (w4, snd s3 @ [GetCall None]) (drop (Suc i) ?links) (acc @ [entry])"
    by (simp only: scrape.simps entry prod.case)
  finally have step: "scrape sv s2 ?links [] =
      scrape sv (w4, snd s3 @ [GetCall None]) (drop (Suc i) ?links) (acc @ [entry])"
    using split by simp
  have loop: "\<exists>entry.
            fetch_entry sv s3 None = (entry, (w4, snd s3 @ [GetCall None])) \<and>
            (\<forall>e. answer = Inl e \<longrightarrow>
               entry = ''Error fetching content from None: '' @ str e) \<and>
            scrape sv s2 ?links [] =
              scrape sv (w4, snd s3 @ [GetCall None]) (drop (Suc i) ?links) (acc @ [entry])"
    using entry sentinel step by blast
  obtain relevant_information s5 where
    whole: "scrape sv s2 ?links [] = (relevant_information, s5)"
    by (cases "scrape sv s2 ?links []")
  have log5: "snd s5 = snd s2 @ map GetCall ?links"
    using scrape_log [OF whole] .
  have resp: "\<forall>r s. chat sv environment s0 input = (Inr r, s) \<longrightarrow>
            relevant_sources r ! i = None \<and>
            length (relevant_sources r) = min 5 (length (get_organic_results search_results)) \<and>
            snd s ! (length (snd s2) + i) = GetCall None"
  proof (intro allI impI)
    fix r s
    assume "chat sv environment s0 input = (Inr r, s)"
    then obtain sr s6 fr where
      d: "call_parse sv s5 model_name (final_messages input relevant_information)
            = (Inr (Some sr), s6)"
      and e: "call_parse sv s6 model_name (final_messages input relevant_information)
            = (Inr (Some fr), s)"
      and r: "r = result\<lparr>summary := summary sr, full_explanation := full_explanation fr,
                         relevant_sources := ?links\<rparr>"
      using chat_after_search [OF first search whole] by blast
    have rs: "relevant_sources r = ?links" using r by simp
    have "snd s = snd s2 @ map GetCall ?links @
        [ParseCall (final_messages input relevant_information),
         ParseCall (final_messages input relevant_information)]"
      using call_parse_log [OF d] call_parse_log [OF e] log5 by simp
    then have "snd s ! (length (snd s2) + i) = GetCall (?links ! i)"
      using ilinks by (simp add: nth_append)
    with rs nth len show "relevant_sources r ! i = None \<and>
            length (relevant_sources r) = min 5 (length (get_organic_results search_results)) \<and>
            snd s ! (length (snd s2) + i) = GetCall None"
      by simp
  qed
  from len nth loop resp show ?thesis
    by (intro conjI)
qed

theorem missing_link_gives_None_witness:
  "(example_organic ! 1) ''link'' = None \<and>
   scrape example_services (2, take 2 example_log)
     (take 1 (first_links (get_organic_results [''organic_results'' \<mapsto> example_organic]))) []
     = ([''one two''], (3, take 3 example_log)) \<and>
   requests_get example_services 3 None = (Inl (Exception ''Invalid URL''), 4) \<and>
   fetch_entry example_services (3, take 3 example_log) None =
     (''Error fetching content from None: Invalid URL'', (4, take 4 example_log)) \<and>
   chat example_services example_environment (0, []) example_input =
     (Inr example_response, (9, example_log)) \<and>
   relevant_sources example_response ! 1 = None \<and>
   length (relevant_sources example_response) = 5 \<and>
   example_log ! 3 = GetCall None"
proof -
  have organic: "get_organic_results [''organic_results'' \<mapsto> example_organic] = example_organic"
    by (simp add: get_organic_results_def)
  have i5: "(1::nat) < 5" by simp
  have ilen: "1 < length (get_organic_results [''organic_results'' \<mapsto> example_organic])"
    by (simp add: organic) (simp add: example_organic_def)
  have nolink: "(get_organic_results [''organic_results'' \<mapsto> example_organic] ! 1) ''link''
      = None"
    by (simp add: organic) (simp add: example_organic_def)
  have before: "scrape example_services (2, take 2 example_log)
     (take 1 (first_links (get_organic_results [''organic_results'' \<mapsto> example_organic]))) []
     = ([''one two''], (3, take 3 example_log))"
    by (simp add: example_first_links)
       (simp add: example_links_list_def example_services_def example_get_def
        example_soup_def fetch_entry_def fetch_text_def call_get_def raise_for_status_def
        example_log_def)
  have get: "requests_get example_services (fst (3, take 3 example_log)) None =
      (Inl (Exception ''Invalid URL''), 4)"
    by (simp add: example_services_def example_get_def)
  note none = missing_link_gives_None [OF example_w1 example_w2 i5 ilen nolink before get]
  have a: "(example_organic ! 1) ''link'' = None"
    using nolink by (simp only: organic)
  have c: "requests_get example_services 3 None = (Inl (Exception ''Invalid URL''), 4)"
    using get by simp
  from none [THEN conjunct2, THEN conjunct2, THEN conjunct1] obtain entry where
    "fetch_entry example_services (3, take 3 example_log) None =
       (entry, (4, snd (3::int, take 3 example_log) @ [GetCall None]))"
    and "\<forall>e. Inl (Exception ''Invalid URL'') = (Inl e :: exn + http_response) \<longrightarrow>
           entry = ''Error fetching content from None: '' @ str e"
    by blast
  then have d: "fetch_entry example_services (3, take 3 example_log) None =
     (''Error fetching content from None: Invalid URL'', (4, take 4 example_log))"
    by (simp add: example_log_def example_links_list_def)
  have e: "chat example_services example_environment (0, []) example_input =
     (Inr example_response, (9, example_log))"
    by (rule example_chat)
  from none [THEN conjunct2, THEN conjunct2, THEN conjunct2] e
  have raw: "relevant_sources example_response ! 1 = None \<and>
        length (relevant_sources example_response) =
          min 5 (length (get_organic_results [''organic_results'' \<mapsto> example_organic])) \<and>
        snd (9::int, example_log) ! (length (snd (2::int, take 2 example_log)) + 1) = GetCall None"
    by blast
  have five: "min 5 (length (get_organic_results [''organic_results'' \<mapsto> example_organic])) = 5"
    by (simp add: get_organic_results_def example_organic_def)
  have f: "relevant_sources example_response ! 1 = None"
    using raw [THEN conjunct1] .
  have g: "length (relevant_sources example_response) = 5"
    using raw [THEN conjunct2, THEN conjunct1] by (simp only: five)
  have h: "example_log ! 3 = GetCall None"
    using raw [THEN conjunct2, THEN conjunct2]
    by (simp add: example_log_def example_links_list_def)
  from a before c d e f g h show ?thesis
    by (intro conjI)
qed

section \<open>The response of /preview\<close>





lemma get_preview_success:
  assumes "requests_get sv (fst s) (Some url) = (Inr response, w')"
    and "\<not> (400 \<le> status_code response \<and> status_code response < 600)"
    and "BeautifulSoup sv (response_text response) = Inr page"
    and "urlparse_netloc sv url = Inr host"
  shows "get_preview sv s url =
           (Inr [(''title'', case soup_title page of
                               Some title_string \<Rightarrow> title_string
                             | None \<Rightarrow> Some ''No title found''),
                 (''url_host'', Some host)],
            (w', snd s @ [GetCall (Some url)]))"
proof -
  have ok: "raise_for_status sv response = Inr ()"
    using assms(2) by (auto simp: raise_for_status_def)
  show ?thesis
    using assms(1,3,4) by (simp add: get_preview_def preview_body_def call_get_def ok)
qed



lemma example_get_c:
  "requests_get example_services (fst (0, [])) (Some ''http://c.example'') =
     (Inr \<lparr>status_code = 200, response_text = ''C''\<rparr>, 1)"
  by (simp add: example_services_def example_get_def)

lemma example_get_d:
  "requests_get example_services (fst (0, [])) (Some ''http://d.example'') =
     (Inr \<lparr>status_code = 200, response_text = ''D''\<rparr>, 1)"
  by (simp add: example_services_def example_get_def)

lemma example_status_ok:
  "\<not> (400 \<le> status_code \<lparr>status_code = 200, response_text = html\<rparr> \<and>
      status_code \<lparr>status_code = 200, response_text = html\<rparr> < 600)"
  by simp


lemma example_soup_c:
  "BeautifulSoup example_services (response_text \<lparr>status_code = 200, response_text = ''C''\<rparr>) =
     Inr \<lparr>soup_title = Some None, p_texts = []\<rparr>"
  by (simp add: example_services_def example_soup_def)

lemma example_soup_d:
  "BeautifulSoup example_services (response_text \<lparr>status_code = 200, response_text = ''D''\<rparr>) =
     Inr \<lparr>soup_title = None, p_texts = [''four'']\<rparr>"
  by (simp add: example_services_def example_soup_def)


lemma example_netloc_c: "urlparse_netloc example_services ''http://c.example'' = Inr ''c.example''"
  by (simp add: example_services_def)

lemma example_netloc_d: "urlparse_netloc example_services ''http://d.example'' = Inr ''d.example''"
  by (simp add: example_services_def)



text \<open>
  C10. A title element without a single string content (\<open>.string\<close> is \<open>None\<close>) gives
  the title \<open>None\<close>, not "No title found". The text "No title found" is returned only
  for a page without a title element, or for one whose title is that very text.
\<close>

theorem get_preview_title_without_string:
  assumes "requests_get sv (fst s) (Some url) = (Inr response, w')"
    and "\<not> (400 \<le> status_code response \<and> status_code response < 600)"
    and "BeautifulSoup sv (response_text response) = Inr page"
    and "urlparse_netloc sv url = Inr host"
  shows "(soup_title page = Some None \<longrightarrow>
            fst (get_preview sv s url) = Inr [(''title'', None), (''url_host'', Some host)]) \<and>
         (\<forall>d. fst (get_preview sv s url) = Inr d \<and>
               map_of d ''title'' = Some (Some ''No title found'') \<longrightarrow>
               soup_title page = None \<or> soup_title page = Some (Some ''No title found''))"
  by (auto simp add: get_preview_success [OF assms] split: option.splits)

theorem get_preview_title_without_string_witness:
  "fst (get_preview example_services (0, []) ''http://c.example'') =
     Inr [(''title'', None), (''url_host'', Some ''c.example'')] \<and>
   fst (get_preview example_services (0, []) ''http://d.example'') =
     Inr [(''title'', Some ''No title found''), (''url_host'', Some ''d.example'')] \<and>
   soup_title \<lparr>soup_title = None, p_texts = [''four'']\<rparr> = None"
  using get_preview_title_without_string
      [OF example_get_c example_status_ok example_soup_c example_netloc_c]
    get_preview_title_without_string
      [OF example_get_d example_status_ok example_soup_d example_netloc_d]
    get_preview_success [OF example_get_d example_status_ok example_soup_d example_netloc_d]
  by simp

end
